theory Spec2Isabelle
  imports Complex_Main "HOL-Library.Sublist"
begin

section \<open>Python values used by app.py\<close>

text \<open>
  Strings are byte strings in UTF-8. The source text holds two characters outside ASCII:
  U+00A0 (no-break space, after the word Scene in the scene descriptions) and U+2011
  (non-breaking hyphen, in the innovative direction). They are written as their bytes.
  Python's \<^verbatim>\<open>sub in s\<close> on strings is \<^const>\<open>sublist\<close>.
\<close>

definition nbsp :: string where
  "nbsp = [CHR 0xC2, CHR 0xA0]"

definition nbhyphen :: string where
  "nbhyphen = [CHR 0xE2, CHR 0x80, CHR 0x91]"

definition apostrophe :: string where
  "apostrophe = [CHR 0x27]"

datatype py_error = ValueError | TypeError | AttributeError | OverflowError

text \<open>
  The builtins \<^verbatim>\<open>int()\<close> and \<open>str.strip()\<close> belong to the interpreter, not to app.py. What
  they do on a string of ASCII characters is fixed by the language and written out here:
  \<^verbatim>\<open>str.strip()\<close> removes the characters for which \<^verbatim>\<open>str.isspace\<close> holds (0x09 to 0x0D,
  0x1C to 0x1F and the space), \<^verbatim>\<open>int()\<close> skips only 0x09 to 0x0D and the space. Beyond ASCII
  they depend on the interpreter's Unicode tables (further whitespace, further decimal
  digits), and \<^verbatim>\<open>int()\<close> refuses a literal with more digits than a configurable limit of
  at least 640. The handlers therefore take the two builtins as a parameter, see
  \<open>python\<close> below; the functions here are their values on ASCII strings.
\<close>

definition py_isspace :: "char \<Rightarrow> bool" where
  "py_isspace c \<longleftrightarrow>
     c \<in> set [CHR 0x09, CHR 0x0A, CHR 0x0B, CHR 0x0C, CHR 0x0D,
               CHR 0x1C, CHR 0x1D, CHR 0x1E, CHR 0x1F, CHR 0x20]"

definition ascii_strip :: "string \<Rightarrow> string" where
  "ascii_strip s = rev (dropWhile py_isspace (rev (dropWhile py_isspace s)))"

definition int_isspace :: "char \<Rightarrow> bool" where
  "int_isspace c \<longleftrightarrow>
     c \<in> set [CHR 0x09, CHR 0x0A, CHR 0x0B, CHR 0x0C, CHR 0x0D, CHR 0x20]"

definition digit_value :: "char \<Rightarrow> int option" where
  "digit_value c =
     map_of [(CHR ''0'', 0), (CHR ''1'', 1), (CHR ''2'', 2), (CHR ''3'', 3), (CHR ''4'', 4),
             (CHR ''5'', 5), (CHR ''6'', 6), (CHR ''7'', 7), (CHR ''8'', 8), (CHR ''9'', 9)] c"

text \<open>
  The digits of a decimal literal: at least one digit, single underscores allowed between
  digits only. The flag says that a digit must come next; \<open>None\<close> is a malformed literal.
\<close>

fun py_digits :: "bool \<Rightarrow> int \<Rightarrow> string \<Rightarrow> int option" where
  "py_digits need acc [] = (if need then None else Some acc)"
| "py_digits need acc (c # cs) =
     (case digit_value c of
        Some v \<Rightarrow> py_digits False (10 * acc + v) cs
      | None \<Rightarrow> if c = CHR ''_'' \<and> \<not> need then py_digits True acc cs else None)"

text \<open>
  \<^verbatim>\<open>int(s)\<close> for an ASCII string \<open>s\<close>: surrounding whitespace is dropped, one sign is
  allowed, then the digits. \<open>None\<close> stands for the ValueError that \<^verbatim>\<open>int\<close> raises.
\<close>

definition ascii_int :: "string \<Rightarrow> int option" where
  "ascii_int s =
     (case rev (dropWhile int_isspace (rev (dropWhile int_isspace s))) of
        [] \<Rightarrow> None
      | c # cs \<Rightarrow>
          if c = CHR ''-'' then map_option uminus (py_digits True 0 cs)
          else if c = CHR ''+'' then py_digits True 0 cs
          else py_digits True 0 (c # cs))"

text \<open>\<^verbatim>\<open>str(i)\<close> for an integer, as an f-string inserts it.\<close>

fun str_nat :: "nat \<Rightarrow> string" where
  "str_nat n =
     (if n < 10 then [''0123456789'' ! n]
      else str_nat (n div 10) @ [''0123456789'' ! (n mod 10)])"

declare str_nat.simps [simp del]

definition py_str :: "int \<Rightarrow> string" where
  "py_str i = (if i < 0 then CHR ''-'' # str_nat (nat (- i)) else str_nat (nat i))"

text \<open>\<^verbatim>\<open>d.get(k, default)\<close> on a dictionary.\<close>

definition dict_get :: "('k \<rightharpoonup> 'v) \<Rightarrow> 'k \<Rightarrow> 'v \<Rightarrow> 'v" where
  "dict_get d k dflt = (case d k of None \<Rightarrow> dflt | Some v \<Rightarrow> v)"

text \<open>Truth value of \<^verbatim>\<open>d.get(k)\<close> when the values are strings: present and not empty.\<close>

fun truthy :: "string option \<Rightarrow> bool" where
  "truthy None = False"
| "truthy (Some s) = (s \<noteq> [])"

text \<open>
  The interpreter that runs app.py, as far as the handlers use it: \<open>int_str s\<close> is
  \<^verbatim>\<open>int(s)\<close> for a string, with \<open>None\<close> for the ValueError (the only exception \<^verbatim>\<open>int\<close> raises
  on a string), and \<open>str_strip s\<close> is \<^verbatim>\<open>s.strip()\<close>. An interpreter conforms when it agrees
  with the functions above on ASCII strings, for \<^verbatim>\<open>int\<close> on those of at most 640
  characters, which no setting of the digit limit refuses. Nothing is assumed about other
  strings. \<open>ascii_python\<close> is one conforming interpreter.
\<close>

record python =
  int_str :: "string \<Rightarrow> int option"
  str_strip :: "string \<Rightarrow> string"

definition is_ascii :: "string \<Rightarrow> bool" where
  "is_ascii s \<longleftrightarrow> list_all (\<lambda>c. (of_char c :: nat) < 128) s"

definition conforms :: "python \<Rightarrow> bool" where
  "conforms py \<longleftrightarrow>
     (\<forall>s. is_ascii s \<and> length s \<le> 640 \<longrightarrow> int_str py s = ascii_int s)
     \<and> (\<forall>s. is_ascii s \<longrightarrow> str_strip py s = ascii_strip s)"

definition ascii_python :: python where
  "ascii_python = \<lparr>int_str = ascii_int, str_strip = ascii_strip\<rparr>"

section \<open>Configuration\<close>

type_synonym environ = "string \<rightharpoonup> string"

record app_config =
  secret_key :: string
  hailuo_api_key :: "string option"

text \<open>
  The module-level configuration code: the secret key from \<^verbatim>\<open>FLASK_SECRET_KEY\<close> with the
  default \<^verbatim>\<open>change-me\<close>, the API key from \<^verbatim>\<open>HAILUO_API_KEY\<close>. The second component is the
  list of warnings the code emits while doing so: app.py has no logging or warning call.
\<close>

definition load_config :: "environ \<Rightarrow> app_config \<times> string list" where
  "load_config env =
     (\<lparr>secret_key = dict_get env ''FLASK_SECRET_KEY'' ''change-me'',
       hailuo_api_key = env ''HAILUO_API_KEY''\<rparr>, [])"

definition USERS :: "string \<rightharpoonup> string" where
  "USERS = [''demo'' \<mapsto> ''password123'', ''admin'' \<mapsto> ''admin'']"

section \<open>Helper functions\<close>

subsection \<open>generate_directions\<close>

text \<open>A returned dictionary is the list of its items, in insertion order.\<close>

definition generate_directions :: "string \<Rightarrow> (string \<times> string) list" where
  "generate_directions product =
     (let safe =
            ''Focus on the core benefits of '' @ product @ '' and highlight its reliability ''
            @ ''and ease of use.  Use straightforward visuals, clear messaging, and a ''
            @ ''friendly tone that reinforces trust.'';
          innovative =
            ''Emphasise how '' @ product @ '' pushes boundaries by showcasing its unique ''
            @ ''features or cutting'' @ nbhyphen @ ''edge technology.  Incorporate dynamic camera ''
            @ ''movements, modern graphic overlays, and a forward'' @ nbhyphen
            @ ''thinking narrative.'';
          experimental =
            ''Take a bold, artistic approach to expressing the essence of '' @ product @ ''.  ''
            @ ''Use abstract storytelling, unexpected metaphors, or surreal visuals ''
            @ ''that evoke emotion and curiosity.''
      in [(''safe'', safe), (''innovative'', innovative), (''experimental'', experimental)])"

subsection \<open>generate_storyboards\<close>

record scene =
  description :: string
  prompt :: string

text \<open>
  The inner function \<^verbatim>\<open>build_scenes\<close> closes over \<open>product\<close> and \<open>segment_length\<close>; here they
  are its first two arguments. In the description of scene 3 the second string literal has
  no \<^verbatim>\<open>f\<close> prefix in the source, so its braces are plain text.
\<close>

definition build_scenes :: "string \<Rightarrow> int \<Rightarrow> string \<Rightarrow> scene list" where
  "build_scenes product segment_length adjective =
     [\<lparr>description =
         ''Scene'' @ nbsp @ ''1 ('' @ py_str segment_length @ ''s): Introduce '' @ product
         @ '' in a '' @ adjective @ '' way, ''
         @ ''highlighting its main value proposition.'',
       prompt =
         ''An opening shot that showcases '' @ product @ '' with '' @ adjective @ '' tone; ''
         @ ''smooth camera movement and soft lighting.''\<rparr>,
      \<lparr>description =
         ''Scene'' @ nbsp @ ''2 ('' @ py_str segment_length @ ''s): Expand on how '' @ product
         @ '' benefits the target ''
         @ ''audience, incorporating a '' @ adjective @ '' visual metaphor.'',
       prompt =
         ''A middle shot using a '' @ adjective @ '' metaphor to illustrate '' @ product
         @ apostrophe @ ''s ''
         @ ''advantage; dynamic transitions and engaging colours.''\<rparr>,
      \<lparr>description =
         ''Scene'' @ nbsp @ ''3 ('' @ py_str segment_length
         @ ''s): Conclude by motivating viewers to act, ''
         @ ''leaving them with a memorable {adjective} impression of {product}.'',
       prompt =
         ''A closing shot that leaves a strong '' @ adjective @ '' impression of '' @ product
         @ ''; ''
         @ ''dramatic composition and inspiring text overlay.''\<rparr>]"

definition generate_storyboards :: "string \<Rightarrow> int \<Rightarrow> int \<Rightarrow> (string \<times> scene list) list" where
  "generate_storyboards product num_videos duration =
     (let segment_length = max 1 (duration div 3)
      in [(''safe'', build_scenes product segment_length ''safe and trustworthy''),
          (''innovative'', build_scenes product segment_length ''innovative and modern''),
          (''experimental'', build_scenes product segment_length ''experimental and artistic'')])"

subsection \<open>call_hailuo_api\<close>

text \<open>
  JSON values, which are also the values of the dictionaries handed to \<^verbatim>\<open>jsonify\<close>.
  \<open>JNull\<close> is Python's \<^verbatim>\<open>None\<close>. A finite float is the rational it denotes; the two other
  constructors are the non-finite floats that \<^verbatim>\<open>json.loads\<close> accepts. An object is the list
  of its items, with distinct keys.
\<close>

datatype json =
    JNull
  | JBool bool
  | JNum int
  | JFloat rat
  | JInfinity
  | JNaN
  | JStr string
  | JArr "json list"
  | JObj "(string \<times> json) list"

text \<open>
  What a call does besides returning: requests sent and seconds slept, in order.
\<close>

datatype io_event = Http_post string | Http_get string | Sleep nat

definition hailuo_submit_url :: string where
  "hailuo_submit_url = ''https://api.novita.ai/v3/async/minimax-hailuo-02''"

text \<open>
  The module-level \<^verbatim>\<open>HAILUO_API_KEY\<close> is the first argument. After the test of the key, the
  source holds the request and polling code inside a string literal, which is an expression
  statement without effect; the statement after it returns the second placeholder. No
  argument other than the key is read. The parameters \<^verbatim>\<open>prompt\<close> and \<^verbatim>\<open>image\<close> are named
  \<open>prompt_arg\<close> and \<open>image_arg\<close>: their names are taken by constants.
\<close>

definition call_hailuo_api ::
  "string option \<Rightarrow> json \<Rightarrow> int \<Rightarrow> string option \<Rightarrow> string option \<Rightarrow> string
     \<Rightarrow> io_event list \<times> (string \<times> json) list" where
  "call_hailuo_api HAILUO_API_KEY prompt_arg duration image_arg end_image resolution =
     (if \<not> truthy HAILUO_API_KEY then
        ([], [(''task_id'', JNull),
              (''video_url'', JNull),
              (''message'', JStr ''Hailuo API key not configured; skipping real API call.'')])
      else
        ([], [(''task_id'', JNull),
              (''video_url'', JNull),
              (''message'', JStr ''Networking disabled; returning placeholder response.'')]))"

section \<open>Routes\<close>

text \<open>
  The session is the dictionary of the signed cookie; a request carries its method, its
  form fields and its body as \<^verbatim>\<open>get_json(force=True)\<close> parses it (\<open>None\<close> when the body
  is not JSON). A handler returns the session it leaves and its response. The handlers
  that call \<^verbatim>\<open>int()\<close> or \<open>strip()\<close> take the interpreter \<open>py\<close> as their first argument.
\<close>

type_synonym session = "string \<rightharpoonup> string"

datatype http_method = GET | POST | HEAD

record request =
  request_method :: http_method
  request_form :: "string \<rightharpoonup> string"
  request_json :: "json option"

datatype endpoint = Login | Dashboard | Logout | Api_generate_video

fun url_for :: "endpoint \<Rightarrow> string" where
  "url_for Login = ''/''"
| "url_for Dashboard = ''/dashboard''"
| "url_for Logout = ''/logout''"
| "url_for Api_generate_video = ''/api/generate_video''"

datatype page =
    Login_html "string option"
  | Index_html
  | Results_html string int int "(string \<times> string) list" "(string \<times> scene list) list"

text \<open>
  \<open>Jsonify\<close> carries the HTTP status and the body. \<open>Abort\<close> is an HTTP error raised by the
  framework (400 for a body that is not JSON); \<open>Unhandled\<close> is an exception that leaves
  the handler, which the server answers with status 500.
\<close>

datatype response =
    Redirect string
  | Render_template page
  | Jsonify nat json
  | Abort nat
  | Unhandled py_error

definition login :: "session \<Rightarrow> request \<Rightarrow> session \<times> response" where
  "login sess req =
     (if truthy (sess ''username'') then (sess, Redirect (url_for Dashboard))
      else if request_method req = POST then
        (let username = request_form req ''username'';
             password = request_form req ''password''
         in case username of
              None \<Rightarrow> (sess, Render_template (Login_html (Some ''Invalid username or password'')))
            | Some u \<Rightarrow>
                (case USERS u of
                   None \<Rightarrow>
                     (sess, Render_template (Login_html (Some ''Invalid username or password'')))
                 | Some pw \<Rightarrow>
                     if password = Some pw
                     then (sess(''username'' \<mapsto> u), Redirect (url_for Dashboard))
                     else (sess,
                           Render_template (Login_html (Some ''Invalid username or password'')))))
      else (sess, Render_template (Login_html None)))"

definition dashboard :: "python \<Rightarrow> session \<Rightarrow> request \<Rightarrow> session \<times> response" where
  "dashboard py sess req =
     (if \<not> truthy (sess ''username'') then (sess, Redirect (url_for Login))
      else if request_method req = POST then
        (let product = str_strip py (dict_get (request_form req) ''product'' []);
             num_videos =
               (case int_str py (dict_get (request_form req) ''num_videos'' ''1'') of
                  Some n \<Rightarrow> n | None \<Rightarrow> 1);
             duration =
               (case int_str py (dict_get (request_form req) ''duration'' ''6'') of
                  Some n \<Rightarrow> n | None \<Rightarrow> 6);
             num_videos = max 1 (min num_videos 10);
             duration = max 2 (min duration 30);
             directions = generate_directions product;
             storyboards = generate_storyboards product num_videos duration
         in (sess, Render_template (Results_html product num_videos duration directions storyboards)))
      else (sess, Render_template Index_html))"

definition logout :: "session \<Rightarrow> session \<times> response" where
  "logout sess = (sess(''username'' := None), Redirect (url_for Login))"

text \<open>
  \<^verbatim>\<open>int(v)\<close> for the value found under \<^verbatim>\<open>duration\<close>: an integer is itself, a Boolean is 0 or
  1, a finite float is truncated towards zero, a string is parsed; everything else raises.
\<close>

fun int_of_json :: "python \<Rightarrow> json \<Rightarrow> py_error + int" where
  "int_of_json py (JNum n) = Inr n"
| "int_of_json py (JBool b) = Inr (if b then 1 else 0)"
| "int_of_json py (JFloat q) = Inr (if 0 \<le> q then \<lfloor>q\<rfloor> else \<lceil>q\<rceil>)"
| "int_of_json py JInfinity = Inl OverflowError"
| "int_of_json py JNaN = Inl ValueError"
| "int_of_json py (JStr s) =
     (case int_str py s of None \<Rightarrow> Inl ValueError | Some n \<Rightarrow> Inr n)"
| "int_of_json py JNull = Inl TypeError"
| "int_of_json py (JArr xs) = Inl TypeError"
| "int_of_json py (JObj kvs) = Inl TypeError"

definition api_generate_video ::
  "python \<Rightarrow> string option \<Rightarrow> session \<Rightarrow> request
     \<Rightarrow> io_event list \<times> session \<times> response" where
  "api_generate_video py HAILUO_API_KEY sess req =
     (if \<not> truthy (sess ''username'') then
        ([], sess, Jsonify 401 (JObj [(''error'', JStr ''unauthenticated'')]))
      else
        (case request_json req of
           None \<Rightarrow> ([], sess, Abort 400)
         | Some (JObj data) \<Rightarrow>
             (let prompt_arg = dict_get (map_of data) ''prompt'' JNull
              in case int_of_json py (dict_get (map_of data) ''duration'' (JNum 6)) of
                   Inl e \<Rightarrow> ([], sess, Unhandled e)
                 | Inr duration \<Rightarrow>
                     (let (io, result) =
                            call_hailuo_api HAILUO_API_KEY prompt_arg duration None None ''768P''
                      in (io, sess, Jsonify 200 (JObj result))))
         | Some _ \<Rightarrow> ([], sess, Unhandled AttributeError)))"

section \<open>Well-formed sessions\<close>

text \<open>
  A session is well-formed when it is empty or holds the single key \<^verbatim>\<open>username\<close> with one of
  the two provisioned names.
\<close>

definition session_ok :: "session \<Rightarrow> bool" where
  "session_ok sess \<longleftrightarrow>
     sess = Map.empty \<or> sess = [''username'' \<mapsto> ''demo'']
     \<or> sess = [''username'' \<mapsto> ''admin'']"

section \<open>Auxiliary facts\<close>

lemma sublist_here: "sublist x (x @ r)"
  by (metis append_Nil sublist_appendI)

lemma sublist_later: "sublist x s \<Longrightarrow> sublist x (a @ s)"
  unfolding sublist_def by (metis append.assoc)

lemma USERS_cases:
  "USERS u =
     (if u = ''admin'' then Some ''admin''
      else if u = ''demo'' then Some ''password123'' else None)"
  by (simp add: USERS_def)

lemma ascii_int_examples:
  "ascii_int ''99'' = Some 99" "ascii_int ''0'' = Some 0" "ascii_int ''1'' = Some 1"
  "ascii_int ''100'' = Some 100" "ascii_int ''abc'' = None" "ascii_int ''6'' = Some 6"
  by (simp_all add: ascii_int_def int_isspace_def digit_value_def)

lemma ascii_int_literals:
  "ascii_int '' -1_000 '' = Some (- 1000)" "ascii_int ''007'' = Some 7"
  "ascii_int ''+ 5'' = None" "ascii_int ''1__0'' = None" "ascii_int ''12_'' = None"
  "ascii_int [] = None"
  by (simp_all add: ascii_int_def int_isspace_def digit_value_def)

lemma conforms_ascii_python: "conforms ascii_python"
  by (simp add: conforms_def ascii_python_def)

text \<open>What a conforming interpreter's \<^verbatim>\<open>int\<close> gives on the literals of the brief.\<close>

lemma conforms_int_examples:
  assumes "conforms py"
  shows "int_str py ''99'' = Some 99" "int_str py ''0'' = Some 0" "int_str py ''1'' = Some 1"
    "int_str py ''100'' = Some 100" "int_str py ''abc'' = None" "int_str py ''6'' = Some 6"
proof -
  have eq: "int_str py s = ascii_int s" if "is_ascii s" "length s \<le> 640" for s
    using assms that by (simp add: conforms_def)
  show "int_str py ''99'' = Some 99" "int_str py ''0'' = Some 0" "int_str py ''1'' = Some 1"
    "int_str py ''100'' = Some 100" "int_str py ''abc'' = None" "int_str py ''6'' = Some 6"
    by (simp_all add: eq is_ascii_def ascii_int_examples)
qed

lemma py_str_examples: "py_str 2 = ''2''" "py_str 1 = ''1''" "py_str 10 = ''10''"
  by (simp_all add: py_str_def str_nat.simps)

lemma dashboard_session: "fst (dashboard py sess req) = sess"
  by (simp add: dashboard_def Let_def)

lemma api_generate_video_session: "fst (snd (api_generate_video py key sess req)) = sess"
  by (simp add: api_generate_video_def Let_def
      split: option.splits json.splits sum.splits prod.splits)

lemma login_session:
  "fst (login sess req) = sess
   \<or> (\<not> truthy (sess ''username'') \<and> request_method req = POST
       \<and> (\<exists>u pw. USERS u = Some pw \<and> request_form req ''username'' = Some u
                  \<and> request_form req ''password'' = Some pw
                  \<and> login sess req = (sess(''username'' \<mapsto> u), Redirect ''/dashboard'')))"
  by (simp add: login_def Let_def split: option.splits)

text \<open>
  What \<^verbatim>\<open>build_scenes\<close> does interpolate: every prompt holds the product and the adjective,
  every description holds the segment length, and the descriptions of scenes 1 and 2 hold
  the product and the adjective.
\<close>

lemma build_scenes_interpolation:
  "list_all (\<lambda>s. sublist p (prompt s) \<and> sublist adj (prompt s)
              \<and> sublist (py_str seg) (description s)) (build_scenes p seg adj)
   \<and> list_all (\<lambda>s. sublist p (description s) \<and> sublist adj (description s))
        (take 2 (build_scenes p seg adj))"
  unfolding build_scenes_def list.pred_inject take_Suc_Cons numeral_2_eq_2 take_0 scene.simps
  by (intro conjI; ((rule sublist_here | rule sublist_later)+ | simp))

section \<open>Login\<close>

text \<open>
  C1, as stated, fails for a request that already carries a session: the handler first
  tests the session and redirects to the dashboard without reading the form. A signed-in
  admin who posts a wrong pair gets the redirect, not the login page with the message.
\<close>

theorem login_post_authenticated_counterexample:
  "login [''username'' \<mapsto> ''admin'']
     \<lparr>request_method = POST,
      request_form = [''username'' \<mapsto> ''mallory'', ''password'' \<mapsto> ''guess''],
      request_json = None\<rparr>
   = ([''username'' \<mapsto> ''admin''], Redirect ''/dashboard'')
   \<and> snd (login [''username'' \<mapsto> ''admin'']
     \<lparr>request_method = POST,
      request_form = [''username'' \<mapsto> ''mallory'', ''password'' \<mapsto> ''guess''],
      request_json = None\<rparr>)
     \<noteq> Render_template (Login_html (Some ''Invalid username or password''))"
  by (simp add: login_def)

text \<open>
  C1 (amended): every login POST falls in one of three cases. A request that already
  carries an authenticated session is redirected to the dashboard with its session as it
  was, whatever pair it posts. Without such a session, the pairs (demo, password123) and
  (admin, admin) store that username in the session and redirect to the dashboard, and
  every other pair, a missing field included, leaves the session as it was and renders the
  login page with the message \<^verbatim>\<open>Invalid username or password\<close>.
\<close>

theorem login_post_cases:
  assumes "request_method req = POST"
  shows "login sess req =
     (if truthy (sess ''username'') then (sess, Redirect ''/dashboard'')
      else if (request_form req ''username'', request_form req ''password'')
           \<in> {(Some ''demo'', Some ''password123''), (Some ''admin'', Some ''admin'')}
      then (sess(''username'' := request_form req ''username''), Redirect ''/dashboard'')
      else (sess, Render_template (Login_html (Some ''Invalid username or password''))))"
  using assms by (auto simp: login_def Let_def USERS_cases split: option.splits)

text \<open>
  The demo account signs in from an empty session; demo with the admin password does not;
  a signed-in demo user who posts the admin pair keeps the demo session and is redirected.
\<close>

theorem login_post_cases_witness:
  "request_method
     \<lparr>request_method = POST,
      request_form = [''username'' \<mapsto> ''demo'', ''password'' \<mapsto> ''password123''],
      request_json = None\<rparr> = POST
   \<and> login Map.empty
        \<lparr>request_method = POST,
         request_form = [''username'' \<mapsto> ''demo'', ''password'' \<mapsto> ''password123''],
         request_json = None\<rparr>
       = ([''username'' \<mapsto> ''demo''], Redirect ''/dashboard'')
   \<and> login Map.empty
        \<lparr>request_method = POST,
         request_form = [''username'' \<mapsto> ''demo'', ''password'' \<mapsto> ''admin''],
         request_json = None\<rparr>
       = (Map.empty, Render_template (Login_html (Some ''Invalid username or password'')))
   \<and> login [''username'' \<mapsto> ''demo'']
        \<lparr>request_method = POST,
         request_form = [''username'' \<mapsto> ''admin'', ''password'' \<mapsto> ''admin''],
         request_json = None\<rparr>
       = ([''username'' \<mapsto> ''demo''], Redirect ''/dashboard'')"
  using login_post_cases [of
          "\<lparr>request_method = POST,
            request_form = [''username'' \<mapsto> ''demo'', ''password'' \<mapsto> ''password123''],
            request_json = None\<rparr>" Map.empty]
        login_post_cases [of
          "\<lparr>request_method = POST,
            request_form = [''username'' \<mapsto> ''demo'', ''password'' \<mapsto> ''admin''],
            request_json = None\<rparr>" Map.empty]
        login_post_cases [of
          "\<lparr>request_method = POST,
            request_form = [''username'' \<mapsto> ''admin'', ''password'' \<mapsto> ''admin''],
            request_json = None\<rparr>" "[''username'' \<mapsto> ''demo'']"]
  by simp

section \<open>Protected routes without a session\<close>

text \<open>
  C2: when the session holds no username (or an empty one), the dashboard handler answers
  every request, whatever its method, with a redirect to \<^verbatim>\<open>/\<close>, and the video endpoint
  answers with status 401 and the body \<^verbatim>\<open>{"error": "unauthenticated"}\<close>, without reading the
  request and without any request sent. Neither response is an unhandled exception.
\<close>

theorem unauthenticated_rejected:
  assumes "\<not> truthy (sess ''username'')"
  shows "dashboard py sess req = (sess, Redirect ''/'')
     \<and> api_generate_video py key sess req =
         ([], sess, Jsonify 401 (JObj [(''error'', JStr ''unauthenticated'')]))"
  using assms by (simp add: dashboard_def api_generate_video_def)

text \<open>A GET and a POST to the dashboard and a POST to the video endpoint, all without session.\<close>

theorem unauthenticated_rejected_witness:
  "\<not> truthy (Map.empty ''username'')
   \<and> dashboard ascii_python Map.empty
        \<lparr>request_method = GET, request_form = Map.empty, request_json = None\<rparr>
       = (Map.empty, Redirect ''/'')
   \<and> dashboard ascii_python Map.empty
        \<lparr>request_method = POST, request_form = [''product'' \<mapsto> ''Widget''],
         request_json = None\<rparr>
       = (Map.empty, Redirect ''/'')
   \<and> api_generate_video ascii_python None Map.empty
        \<lparr>request_method = POST, request_form = Map.empty,
         request_json = Some (JObj [(''prompt'', JStr ''a kettle'')])\<rparr>
       = ([], Map.empty, Jsonify 401 (JObj [(''error'', JStr ''unauthenticated'')]))"
  using unauthenticated_rejected [of Map.empty ascii_python
          "\<lparr>request_method = GET, request_form = Map.empty, request_json = None\<rparr>" None]
        unauthenticated_rejected [of Map.empty ascii_python
          "\<lparr>request_method = POST, request_form = [''product'' \<mapsto> ''Widget''],
            request_json = None\<rparr>" None]
        unauthenticated_rejected [of Map.empty ascii_python
          "\<lparr>request_method = POST, request_form = Map.empty,
            request_json = Some (JObj [(''prompt'', JStr ''a kettle'')])\<rparr>" None]
  by simp

section \<open>Clamping of the brief\<close>

text \<open>
  C3: an authenticated POST to the dashboard always renders the results page, never an
  error, whatever the interpreter's \<^verbatim>\<open>int\<close> and \<open>strip\<close> do with the fields. The number of
  videos shown is what \<^verbatim>\<open>int\<close> gives for the field (for \<^verbatim>\<open>"1"\<close> when the field is missing),
  or 1 when \<^verbatim>\<open>int\<close> raises ValueError, clamped to 1..10; the duration is what \<^verbatim>\<open>int\<close> gives for
  the field (for \<^verbatim>\<open>"6"\<close> when it is missing), or 6 on ValueError, clamped to 2..30. On
  every conforming interpreter 99 gives 10, 0 gives 1, abc gives 1 and a missing field
  gives 1 for the number of videos, and 1 gives 2, 100 gives 30, abc gives 6 and a missing
  field gives 6 for the duration.
\<close>

theorem dashboard_post_clamps:
  assumes "truthy (sess ''username'')" and "request_method req = POST"
  shows "\<exists>product num_videos duration.
     dashboard py sess req =
       (sess, Render_template (Results_html product num_videos duration
                (generate_directions product)
                (generate_storyboards product num_videos duration)))
     \<and> product = str_strip py (dict_get (request_form req) ''product'' [])
     \<and> num_videos =
         max 1 (min (case int_str py (dict_get (request_form req) ''num_videos'' ''1'') of
                       Some n \<Rightarrow> n | None \<Rightarrow> 1) 10)
     \<and> 1 \<le> num_videos \<and> num_videos \<le> 10
     \<and> duration =
         max 2 (min (case int_str py (dict_get (request_form req) ''duration'' ''6'') of
                       Some n \<Rightarrow> n | None \<Rightarrow> 6) 30)
     \<and> 2 \<le> duration \<and> duration \<le> 30
     \<and> (conforms py \<longrightarrow>
          (request_form req ''num_videos'' = Some ''99'' \<longrightarrow> num_videos = 10)
          \<and> (request_form req ''num_videos'' = Some ''0'' \<longrightarrow> num_videos = 1)
          \<and> (request_form req ''num_videos'' = Some ''abc'' \<longrightarrow> num_videos = 1)
          \<and> (request_form req ''num_videos'' = None \<longrightarrow> num_videos = 1)
          \<and> (request_form req ''duration'' = Some ''1'' \<longrightarrow> duration = 2)
          \<and> (request_form req ''duration'' = Some ''100'' \<longrightarrow> duration = 30)
          \<and> (request_form req ''duration'' = Some ''abc'' \<longrightarrow> duration = 6)
          \<and> (request_form req ''duration'' = None \<longrightarrow> duration = 6))"
  using assms by (auto simp: dashboard_def Let_def dict_get_def conforms_int_examples)

text \<open>
  Three briefs posted by the demo user on the conforming interpreter \<open>ascii_python\<close>:
  (99, abc), (0, 100) and (abc, 1).
\<close>

theorem dashboard_post_clamps_witness:
  "truthy ([''username'' \<mapsto> ''demo''] ''username'') \<and> conforms ascii_python
   \<and> dashboard ascii_python [''username'' \<mapsto> ''demo'']
        \<lparr>request_method = POST,
         request_form =
           [''product'' \<mapsto> ''Widget'', ''num_videos'' \<mapsto> ''99'', ''duration'' \<mapsto> ''abc''],
         request_json = None\<rparr>
       = ([''username'' \<mapsto> ''demo''],
          Render_template (Results_html ''Widget'' 10 6 (generate_directions ''Widget'')
            (generate_storyboards ''Widget'' 10 6)))
   \<and> dashboard ascii_python [''username'' \<mapsto> ''demo'']
        \<lparr>request_method = POST,
         request_form =
           [''product'' \<mapsto> ''Widget'', ''num_videos'' \<mapsto> ''0'', ''duration'' \<mapsto> ''100''],
         request_json = None\<rparr>
       = ([''username'' \<mapsto> ''demo''],
          Render_template (Results_html ''Widget'' 1 30 (generate_directions ''Widget'')
            (generate_storyboards ''Widget'' 1 30)))
   \<and> dashboard ascii_python [''username'' \<mapsto> ''demo'']
        \<lparr>request_method = POST,
         request_form =
           [''product'' \<mapsto> ''Widget'', ''num_videos'' \<mapsto> ''abc'', ''duration'' \<mapsto> ''1''],
         request_json = None\<rparr>
       = ([''username'' \<mapsto> ''demo''],
          Render_template (Results_html ''Widget'' 1 2 (generate_directions ''Widget'')
            (generate_storyboards ''Widget'' 1 2)))"
  using dashboard_post_clamps [of "[''username'' \<mapsto> ''demo'']"
          "\<lparr>request_method = POST,
            request_form =
              [''product'' \<mapsto> ''Widget'', ''num_videos'' \<mapsto> ''99'', ''duration'' \<mapsto> ''abc''],
            request_json = None\<rparr>" ascii_python]
        dashboard_post_clamps [of "[''username'' \<mapsto> ''demo'']"
          "\<lparr>request_method = POST,
            request_form =
              [''product'' \<mapsto> ''Widget'', ''num_videos'' \<mapsto> ''0'', ''duration'' \<mapsto> ''100''],
            request_json = None\<rparr>" ascii_python]
        dashboard_post_clamps [of "[''username'' \<mapsto> ''demo'']"
          "\<lparr>request_method = POST,
            request_form =
              [''product'' \<mapsto> ''Widget'', ''num_videos'' \<mapsto> ''abc'', ''duration'' \<mapsto> ''1''],
            request_json = None\<rparr>" ascii_python]
        conforms_ascii_python
  by (simp add: ascii_int_examples dict_get_def ascii_python_def ascii_strip_def
      py_isspace_def)

section \<open>Content generator\<close>


text \<open>
  C5 says that the description of every scene holds the product and the adjective phrase.
  For the product Widget, one video and duration 6, the description of scene 3 is, in each
  of the three directions, the same text with the placeholders \<^verbatim>\<open>{adjective}\<close> and
  \<^verbatim>\<open>{product}\<close> left as they are: it holds the segment length 2, but neither Widget nor the
  phrase \<^verbatim>\<open>safe and trustworthy\<close>.
\<close>

theorem scene3_description_literal:
  "map (\<lambda>(direction, scenes). description (scenes ! 2))
     (generate_storyboards ''Widget'' 1 6) =
     replicate 3 (''Scene'' @ nbsp @ ''3 (2s): Conclude by motivating viewers to act, leaving them with a memorable {adjective} impression of {product}.'')
   \<and> \<not> sublist ''Widget'' (''Scene'' @ nbsp @ ''3 (2s): Conclude by motivating viewers to act, leaving them with a memorable {adjective} impression of {product}.'')
   \<and> \<not> sublist ''safe and trustworthy'' (''Scene'' @ nbsp @ ''3 (2s): Conclude by motivating viewers to act, leaving them with a memorable {adjective} impression of {product}.'')"
  by code_simp



section \<open>Video task client\<close>

text \<open>
  C7: when the API key is absent or empty, \<^verbatim>\<open>call_hailuo_api\<close> sends no request and does not
  sleep, and returns a dictionary with \<^verbatim>\<open>task_id\<close> and \<^verbatim>\<open>video_url\<close> set to None and a
  message that is not empty.
\<close>

theorem call_hailuo_api_no_key:
  assumes "\<not> truthy key"
  shows "fst (call_hailuo_api key p d i e r) = []
     \<and> map_of (snd (call_hailuo_api key p d i e r)) ''task_id'' = Some JNull
     \<and> map_of (snd (call_hailuo_api key p d i e r)) ''video_url'' = Some JNull
     \<and> (\<exists>msg. map_of (snd (call_hailuo_api key p d i e r)) ''message'' = Some (JStr msg)
               \<and> msg \<noteq> [])"
  using assms by (simp add: call_hailuo_api_def)

text \<open>The call without a key, for a prompt and six seconds.\<close>

theorem call_hailuo_api_no_key_witness:
  "\<not> truthy None
   \<and> fst (call_hailuo_api None (JStr ''a kettle'') 6 None None ''768P'') = []
   \<and> map_of (snd (call_hailuo_api None (JStr ''a kettle'') 6 None None ''768P'')) ''task_id''
       = Some JNull
   \<and> map_of (snd (call_hailuo_api None (JStr ''a kettle'') 6 None None ''768P'')) ''video_url''
       = Some JNull"
  using call_hailuo_api_no_key [of None "JStr ''a kettle''" 6 None None "''768P''"]
  by simp

text \<open>
  C8, as stated, fails: with a key configured the call does not submit the job-creation
  request. The request and polling code is inside a string literal, so the call sends
  nothing and returns the second placeholder.
\<close>

theorem call_hailuo_api_key_counterexample:
  "Http_post hailuo_submit_url
     \<notin> set (fst (call_hailuo_api (Some ''sk-live'') (JStr ''a kettle'') 6 None None ''768P''))
   \<and> snd (call_hailuo_api (Some ''sk-live'') (JStr ''a kettle'') 6 None None ''768P'')
       = [(''task_id'', JNull), (''video_url'', JNull),
          (''message'', JStr ''Networking disabled; returning placeholder response.'')]"
  by (simp add: call_hailuo_api_def)

text \<open>
  C8 (amended): when an API key is configured, \<^verbatim>\<open>call_hailuo_api\<close> sends no request and
  does not sleep, and returns, without raising, the dictionary with \<^verbatim>\<open>task_id\<close> and
  \<^verbatim>\<open>video_url\<close> set to None and the message
  \<^verbatim>\<open>Networking disabled; returning placeholder response.\<close>
\<close>

theorem call_hailuo_api_key_placeholder:
  assumes "truthy key"
  shows "call_hailuo_api key p d i e r =
     ([], [(''task_id'', JNull), (''video_url'', JNull),
           (''message'', JStr ''Networking disabled; returning placeholder response.'')])"
  using assms by (simp add: call_hailuo_api_def)

text \<open>The call with a key, for a prompt, ten seconds and the higher resolution.\<close>

theorem call_hailuo_api_key_placeholder_witness:
  "truthy (Some ''sk-live'')
   \<and> call_hailuo_api (Some ''sk-live'') (JStr ''a kettle'') 10 None None ''1080P'' =
     ([], [(''task_id'', JNull), (''video_url'', JNull),
           (''message'', JStr ''Networking disabled; returning placeholder response.'')])"
  using call_hailuo_api_key_placeholder
          [of "Some ''sk-live''" "JStr ''a kettle''" 10 None None "''1080P''"]
  by simp

section \<open>Session invariant\<close>

text \<open>
  C9: every handler keeps the session well-formed (empty, or the one key \<^verbatim>\<open>username\<close> with
  demo or admin). The dashboard and the video endpoint leave the session as it is; logout
  empties it and redirects to \<^verbatim>\<open>/\<close>; login changes it only from the empty session, on a
  POST whose pair is in the credential table, and then stores that username.
\<close>

theorem session_invariant:
  assumes "session_ok sess"
  shows "session_ok (fst (login sess req))
     \<and> session_ok (fst (dashboard py sess req))
     \<and> session_ok (fst (logout sess))
     \<and> session_ok (fst (snd (api_generate_video py key sess req)))
     \<and> fst (dashboard py sess req) = sess
     \<and> fst (snd (api_generate_video py key sess req)) = sess
     \<and> logout sess = (Map.empty, Redirect ''/'')
     \<and> (fst (login sess req) \<noteq> sess \<longrightarrow>
          sess = Map.empty \<and> request_method req = POST
          \<and> (\<exists>u pw. USERS u = Some pw \<and> request_form req ''username'' = Some u
                     \<and> request_form req ''password'' = Some pw
                     \<and> login sess req = ([''username'' \<mapsto> u], Redirect ''/dashboard'')))"
proof -
  have out: "logout sess = (Map.empty, Redirect ''/'')"
    using assms by (auto simp: logout_def session_ok_def)
  have "sess = Map.empty" if "\<not> truthy (sess ''username'')"
    using assms that by (auto simp: session_ok_def)
  then have step: "fst (login sess req) = sess
    \<or> (sess = Map.empty \<and> request_method req = POST
       \<and> (\<exists>u pw. USERS u = Some pw \<and> request_form req ''username'' = Some u
                  \<and> request_form req ''password'' = Some pw
                  \<and> login sess req = ([''username'' \<mapsto> u], Redirect ''/dashboard'')))"
    using login_session [of sess req] by auto
  have "session_ok (fst (login sess req))"
    using step assms by (auto simp: session_ok_def USERS_cases split: if_splits)
  with out step assms show ?thesis
    by (auto simp: dashboard_session api_generate_video_session session_ok_def)
qed

text \<open>
  The demo user's session through a POST to the login route and through logout, and the
  empty session through a successful login of admin.
\<close>

theorem session_invariant_witness:
  "session_ok [''username'' \<mapsto> ''demo''] \<and> session_ok Map.empty
   \<and> session_ok (fst (login [''username'' \<mapsto> ''demo'']
        \<lparr>request_method = POST, request_form = Map.empty, request_json = None\<rparr>))
   \<and> logout [''username'' \<mapsto> ''demo''] = (Map.empty, Redirect ''/'')
   \<and> session_ok (fst (login Map.empty
        \<lparr>request_method = POST,
         request_form = [''username'' \<mapsto> ''admin'', ''password'' \<mapsto> ''admin''],
         request_json = None\<rparr>))"
  using session_invariant [of "[''username'' \<mapsto> ''demo'']"
          "\<lparr>request_method = POST, request_form = Map.empty, request_json = None\<rparr>"]
        session_invariant [of Map.empty
          "\<lparr>request_method = POST,
            request_form = [''username'' \<mapsto> ''admin'', ''password'' \<mapsto> ''admin''],
            request_json = None\<rparr>"]
  by (simp add: session_ok_def)

section \<open>Secret key\<close>

text \<open>
  C10, as stated, fails in its second half: with an empty environment the secret key is the
  default \<^verbatim>\<open>change-me\<close> and no warning is emitted.
\<close>

theorem load_config_silent_counterexample:
  "secret_key (fst (load_config Map.empty)) = ''change-me''
   \<and> snd (load_config Map.empty) = []"
  by (simp add: load_config_def dict_get_def)

text \<open>
  C10 (amended): when \<^verbatim>\<open>FLASK_SECRET_KEY\<close> is absent from the environment, the secret key is
  the default \<^verbatim>\<open>change-me\<close>, and the fallback is silent: no warning is emitted.
\<close>

theorem load_config_default:
  assumes "env ''FLASK_SECRET_KEY'' = None"
  shows "load_config env =
     (\<lparr>secret_key = ''change-me'', hailuo_api_key = env ''HAILUO_API_KEY''\<rparr>, [])"
  using assms by (simp add: load_config_def dict_get_def)

text \<open>An environment that sets the API key only.\<close>

theorem load_config_default_witness:
  "[''HAILUO_API_KEY'' \<mapsto> ''sk-live''] ''FLASK_SECRET_KEY'' = None
   \<and> load_config [''HAILUO_API_KEY'' \<mapsto> ''sk-live''] =
     (\<lparr>secret_key = ''change-me'', hailuo_api_key = Some ''sk-live''\<rparr>, [])"
  using load_config_default [of "[''HAILUO_API_KEY'' \<mapsto> ''sk-live'']"]
  by simp

end
